theory Spec2Isabelle
  imports Complex_Main "HOL-Library.Word" "HOL-Library.AList"
begin

section \<open>The frame source of librealsense (src/source.cpp)\<close>

text \<open>
  The file defines the option class \<open>frame_queue_size\<close> and the member functions of
  \<open>frame_source\<close>. Every member function becomes a function from the state before the
  call to a result and the state after it. The state is a \<open>world\<close>: the one
  \<open>frame_source\<close> object, the next free address for an archive, and the trace of the
  calls the frame source has made into its collaborators (archives, frames, the user
  callback, the log), oldest first. The classes of those collaborators are declared in
  headers that are not part of \<open>source.cpp\<close>; what they do is taken from the
  specification and marked as such. The mutexes of the source are not modelled: every
  call runs to its end before the next one starts.
\<close>

subsection \<open>Data\<close>

text \<open>
  The enumeration \<open>rs2_extension_type\<close> is declared in a header; \<open>source.cpp\<close> names two
  of its values. Every other enumerator is \<open>RS2_EXTENSION_TYPE_OTHER n\<close>.
\<close>

datatype rs2_extension_type =
    RS2_EXTENSION_TYPE_VIDEO_FRAME
  | RS2_EXTENSION_TYPE_COMPOSITE_FRAME
  | RS2_EXTENSION_TYPE_OTHER nat

text \<open>
  What can be thrown. \<open>invalid_value_exception\<close> carries the rejected value, which the
  source formats into its message; \<open>wrong_api_call_sequence_exception\<close> carries its
  message; \<open>user_exception\<close> stands for whatever a user callback throws.
\<close>

datatype exn =
    invalid_value_exception real
  | wrong_api_call_sequence_exception string
  | user_exception nat

text \<open>
  How a call can fail: a C++ exception reaches the caller, a null \<open>shared_ptr\<close> is
  dereferenced, or a floating-point value that does not fit is converted to
  \<open>uint32_t\<close>. The last two are undefined behaviour in C++.
\<close>

datatype failure =
    Thrown exn
  | null_dereference
  | conversion_out_of_range

type_synonym 'a result = "failure + 'a"

type_synonym archive_ptr = nat
type_synonym rs2_time_t = real
type_synonym frame_additional_data = nat
type_synonym metadata_parser_map = nat
type_synonym sensor_interface = nat

text \<open>
  A frame, as far as \<open>source.cpp\<close> looks at it: the archive \<open>get_owner()\<close> returns, the
  size of its buffer, the data it was allocated with, and the time
  \<open>log_callback_start\<close> stored. A \<open>frame_holder\<close> is a pointer to a frame or null.
  A frame always has an owner: frames come from an archive's \<open>alloc_and_track\<close>, which
  makes the archive their owner.
\<close>

record frame =
  owner :: archive_ptr
  data_size :: nat
  additional_data :: frame_additional_data
  callback_start :: "rs2_time_t option"

type_synonym frame_holder = "frame option"

text \<open>
  A user callback: \<open>on_frame\<close> returns (\<open>None\<close>) or throws (\<open>Some e\<close>), depending on the
  frame it is given.
\<close>

type_synonym rs2_frame_callback = "frame \<Rightarrow> exn option"

text \<open>The time service \<open>_ts\<close> points to, with the time its \<open>get_time()\<close> returns.\<close>

record time_service =
  get_time :: rs2_time_t

record option_range =
  opt_min :: real
  opt_max :: real
  opt_step :: real
  opt_def :: real

text \<open>
  The members of \<open>frame_source\<close>, without their leading underscore. \<open>archive\<close> is the
  \<open>std::map\<close> from frame type to \<open>shared_ptr\<close> of an archive, as an association list
  with one entry per key; \<open>None\<close> is a null pointer. The order of the entries is the
  order the loops over the map visit them in, and shows only in the order of the
  \<open>Flush\<close> and \<open>Set_sensor\<close> events. \<open>max_publish_list_size\<close> is the
  \<open>std::atomic<uint32_t>\<close>.
\<close>

record frame_source =
  callback :: "rs2_frame_callback option"
  archive :: "(rs2_extension_type \<times> archive_ptr option) list"
  max_publish_list_size :: "32 word"
  ts :: time_service

text \<open>
  What the frame source does to its collaborators, one event per call: an archive's
  \<open>begin_callback\<close>, the destruction of the token it returned, an archive's
  \<open>alloc_and_track\<close>, \<open>set_sensor\<close> and \<open>flush\<close>, a frame's \<open>log_callback_start\<close>, the
  callback target's \<open>on_frame\<close>, the release of a frame by the destructor of a handle
  that still refers to it, and \<open>LOG_ERROR\<close>.
\<close>

datatype event =
    Begin_callback archive_ptr
  | End_callback archive_ptr
  | Alloc_and_track archive_ptr nat frame_additional_data bool
  | Set_sensor archive_ptr sensor_interface
  | Flush archive_ptr
  | Log_callback_start frame rs2_time_t
  | On_frame frame
  | Release frame
  | Log_error string

record world =
  source :: frame_source
  next_archive :: archive_ptr
  trace :: "event list"

definition emit :: "event \<Rightarrow> world \<Rightarrow> world" where
  "emit e w = w\<lparr>trace := trace w @ [e]\<rparr>"

text \<open>The events a call added: the trace after it, without the trace before it.\<close>

definition emitted :: "world \<Rightarrow> world \<Rightarrow> event list" where
  "emitted w w' = drop (length (trace w)) (trace w')"

subsection \<open>Collaborators declared outside source.cpp\<close>

text \<open>
  Modelled from the spec: \<open>option_base::is_valid\<close>, which \<open>frame_queue_size::set\<close> calls
  and which is defined with \<open>option_base\<close>, not in \<open>source.cpp\<close>. The specification:
  a value is rejected "if it falls outside \<open>[min, max]\<close> or is not aligned with
  \<open>step\<close>". Aligned means that the distance from \<open>min\<close> is a whole number of steps.
  The one range \<open>source.cpp\<close> constructs has step 1.
\<close>

definition is_valid :: "option_range \<Rightarrow> real \<Rightarrow> bool" where
  "is_valid r v =
     (opt_min r \<le> v \<and> v \<le> opt_max r \<and> frac ((v - opt_min r) / opt_step r) = 0)"

text \<open>
  Modelled from the spec: \<open>make_archive\<close>, which "constructs one Pool per supported frame
  kind". The new archive gets the next free address; the pointer returned is not null.
\<close>

definition make_archive ::
  "rs2_extension_type \<Rightarrow> metadata_parser_map \<Rightarrow> world \<Rightarrow> archive_ptr option \<times> world" where
  "make_archive type parsers w =
     (Some (next_archive w), w\<lparr>next_archive := Suc (next_archive w)\<rparr>)"

text \<open>
  Modelled from the spec: the archive's \<open>begin_callback\<close>, which "returns a scoped guard
  object"; the guard is the address of the archive it was taken from.
\<close>

type_synonym callback_invocation_holder = archive_ptr

definition archive_begin_callback :: "archive_ptr \<Rightarrow> world \<Rightarrow> callback_invocation_holder \<times> world" where
  "archive_begin_callback p w = (p, emit (Begin_callback p) w)"

text \<open>
  Modelled from the spec: the destructor of \<open>callback_invocation_holder\<close>, the release of
  the scoped guard "on all exit paths"; it gives the token back to the archive it was
  taken from.
\<close>

definition callback_invocation_holder_dtor :: "callback_invocation_holder \<Rightarrow> world \<Rightarrow> world" where
  "callback_invocation_holder_dtor h w = emit (End_callback h) w"

text \<open>
  Modelled from the spec: the archive's \<open>alloc_and_track\<close> (the spec's \<open>allocate\<close>):
  without \<open>requires_memory\<close> the frame has no buffer, and the call "returns a new
  Handle" to a frame owned by this archive.
\<close>

definition alloc_and_track ::
  "archive_ptr \<Rightarrow> nat \<Rightarrow> frame_additional_data \<Rightarrow> bool \<Rightarrow> world \<Rightarrow> frame_holder result \<times> world" where
  "alloc_and_track p n additional requires_memory w =
     (Inr (Some \<lparr>owner = p, data_size = (if requires_memory then n else 0),
                 additional_data = additional, callback_start = None\<rparr>),
      emit (Alloc_and_track p n additional requires_memory) w)"

text \<open>
  Modelled from the spec: \<open>log_callback_start\<close> of a frame, which "records a callback
  start timestamp on the frame".
\<close>

definition log_callback_start :: "rs2_time_t \<Rightarrow> frame \<Rightarrow> world \<Rightarrow> frame \<times> world" where
  "log_callback_start t f w = (f\<lparr>callback_start := Some t\<rparr>, emit (Log_callback_start f t) w)"

text \<open>
  Modelled from the spec: the destructor of \<open>frame_holder\<close>; a handle that still refers
  to a frame releases it, an empty one does nothing.
\<close>

definition frame_holder_dtor :: "frame_holder \<Rightarrow> world \<Rightarrow> world" where
  "frame_holder_dtor h w = (case h of None \<Rightarrow> w | Some f \<Rightarrow> emit (Release f) w)"

subsection \<open>frame_queue_size\<close>

text \<open>
  \<open>static_cast<uint32_t>(value)\<close> drops the fraction; the behaviour is undefined when
  the result does not fit. The parameter is a C++ \<open>float\<close>, here a real number.
\<close>

definition static_cast_uint32 :: "real \<Rightarrow> (32 word) result" where
  "static_cast_uint32 v =
     (let t = (if 0 \<le> v then \<lfloor>v\<rfloor> else \<lceil>v\<rceil>)
      in if 0 \<le> t \<and> t < 2 ^ 32 then Inr (word_of_int t) else Inl conversion_out_of_range)"

text \<open>
  A \<open>frame_queue_size\<close> holds its range; its \<open>_ptr\<close> is the address of the
  \<open>_max_publish_list_size\<close> of the frame source that made it, the one of the world.
  \<open>set\<close> throws before it stores anything when \<open>is_valid\<close> rejects the value. \<open>query\<close>
  converts the cell back to \<open>float\<close>, here to a real number.
\<close>

record frame_queue_size =
  opt_range :: option_range

definition frame_queue_size_set :: "frame_queue_size \<Rightarrow> real \<Rightarrow> world \<Rightarrow> unit result \<times> world" where
  "frame_queue_size_set opt v w =
     (if \<not> is_valid (opt_range opt) v then (Inl (Thrown (invalid_value_exception v)), w)
      else (case static_cast_uint32 v of
              Inl fault \<Rightarrow> (Inl fault, w)
            | Inr c \<Rightarrow> (Inr (), w\<lparr>source := (source w)\<lparr>max_publish_list_size := c\<rparr>\<rparr>)))"

definition frame_queue_size_query :: "frame_queue_size \<Rightarrow> world \<Rightarrow> real" where
  "frame_queue_size_query opt w = real (unat (max_publish_list_size (source w)))"

definition get_published_size_option :: frame_queue_size where
  "get_published_size_option =
     \<lparr>opt_range = \<lparr>opt_min = 0, opt_max = 32, opt_step = 1, opt_def = 16\<rparr>\<rparr>"

subsection \<open>frame_source\<close>

definition frame_source_ctor :: "time_service \<Rightarrow> frame_source" where
  "frame_source_ctor t = \<lparr>callback = None, archive = [], max_publish_list_size = 16, ts = t\<rparr>"

text \<open>The world right after the constructor: nothing allocated, nothing called.\<close>

definition new_world :: "time_service \<Rightarrow> world" where
  "new_world t = \<lparr>source = frame_source_ctor t, next_archive = 0, trace = []\<rparr>"

text \<open>\<open>_archive[type] = a\<close>: the entry of \<open>type\<close> is replaced, or added when there is none.\<close>

definition archive_assign :: "rs2_extension_type \<Rightarrow> archive_ptr option \<Rightarrow> world \<Rightarrow> world" where
  "archive_assign type a w =
     w\<lparr>source := (source w)\<lparr>archive := AList.update type a (archive (source w))\<rparr>\<rparr>"

definition init_step :: "metadata_parser_map \<Rightarrow> rs2_extension_type \<Rightarrow> world \<Rightarrow> world" where
  "init_step parsers type w =
     (let (a, w') = make_archive type parsers w in archive_assign type a w')"

definition init :: "metadata_parser_map \<Rightarrow> world \<Rightarrow> unit result \<times> world" where
  "init metadata_parsers w =
     (let supported = [RS2_EXTENSION_TYPE_VIDEO_FRAME, RS2_EXTENSION_TYPE_COMPOSITE_FRAME]
      in (Inr (), fold (init_step metadata_parsers) supported w))"

text \<open>
  \<open>_archive[RS2_EXTENSION_TYPE_VIDEO_FRAME]\<close> adds a null entry when the map has none,
  and the arrow then dereferences it.
\<close>

definition begin_callback :: "world \<Rightarrow> callback_invocation_holder result \<times> world" where
  "begin_callback w =
     (case map_of (archive (source w)) RS2_EXTENSION_TYPE_VIDEO_FRAME of
        None \<Rightarrow> (Inl null_dereference, archive_assign RS2_EXTENSION_TYPE_VIDEO_FRAME None w)
      | Some None \<Rightarrow> (Inl null_dereference, w)
      | Some (Some p) \<Rightarrow> (let (h, w') = archive_begin_callback p w in (Inr h, w')))"

definition reset :: "world \<Rightarrow> unit result \<times> world" where
  "reset w =
     (Inr (), w\<lparr>source := (source w)\<lparr>callback := None,
                                     archive := map (\<lambda>kvp. (fst kvp, None)) (archive (source w))\<rparr>\<rparr>)"

definition alloc_frame ::
  "rs2_extension_type \<Rightarrow> nat \<Rightarrow> frame_additional_data \<Rightarrow> bool \<Rightarrow> world \<Rightarrow> frame_holder result \<times> world" where
  "alloc_frame type n additional requires_memory w =
     (case map_of (archive (source w)) type of
        None \<Rightarrow> (Inl (Thrown (wrong_api_call_sequence_exception
                                 ''Requested frame type is not supported!'')), w)
      | Some None \<Rightarrow> (Inl null_dereference, w)
      | Some (Some p) \<Rightarrow> alloc_and_track p n additional requires_memory w)"

fun set_sensor_loop ::
  "(rs2_extension_type \<times> archive_ptr option) list \<Rightarrow> sensor_interface \<Rightarrow> world \<Rightarrow> unit result \<times> world" where
  "set_sensor_loop [] s w = (Inr (), w)"
| "set_sensor_loop (a # rest) s w =
     (case snd a of
        None \<Rightarrow> (Inl null_dereference, w)
      | Some p \<Rightarrow> set_sensor_loop rest s (emit (Set_sensor p s) w))"

definition set_sensor :: "sensor_interface \<Rightarrow> world \<Rightarrow> unit result \<times> world" where
  "set_sensor s w = set_sensor_loop (archive (source w)) s w"

definition set_callback :: "rs2_frame_callback option \<Rightarrow> world \<Rightarrow> unit result \<times> world" where
  "set_callback cb w = (Inr (), w\<lparr>source := (source w)\<lparr>callback := cb\<rparr>\<rparr>)"

text \<open>
  \<open>invoke_callback\<close> returns nothing in C++. The model returns, next to the world, what
  its by-value parameter \<open>frame\<close> refers to when the body is done, which is what the
  destructor of the parameter then releases. The token \<open>callback\<close> is destroyed at the
  end of the \<open>if\<close> block, the parameter after it. With a callback target, \<open>std::swap\<close>
  empties the parameter before \<open>on_frame\<close> runs; an exception of \<open>on_frame\<close> is caught
  and logged.
\<close>

definition invoke_callback :: "frame_holder \<Rightarrow> world \<Rightarrow> frame_holder result \<times> world" where
  "invoke_callback frame w =
     (case frame of
        None \<Rightarrow> (Inr None, w)
      | Some f \<Rightarrow>
          (let (token, w1) = archive_begin_callback (owner f) w;
               (f1, w2) = log_callback_start (get_time (ts (source w1))) f w1;
               (frame', w3) =
                 (case callback (source w2) of
                    None \<Rightarrow> (Some f1, w2)
                  | Some cb \<Rightarrow>
                      (let w' = emit (On_frame f1) w2
                       in (case cb f1 of
                             None \<Rightarrow> (None, w')
                           | Some e \<Rightarrow>
                               (None, emit (Log_error ''Exception was thrown during user callback!'') w'))));
               w4 = callback_invocation_holder_dtor token w3;
               w5 = frame_holder_dtor frame' w4
           in (Inr frame', w5)))"

fun flush_loop :: "(rs2_extension_type \<times> archive_ptr option) list \<Rightarrow> world \<Rightarrow> world" where
  "flush_loop [] w = w"
| "flush_loop (kvp # rest) w =
     flush_loop rest (case snd kvp of None \<Rightarrow> w | Some p \<Rightarrow> emit (Flush p) w)"

definition flush :: "world \<Rightarrow> unit result \<times> world" where
  "flush w = (Inr (), flush_loop (archive (source w)) w)"

subsection \<open>Observations and histories\<close>

text \<open>The archives a stretch of the trace took callback tokens from, in order.\<close>

fun token_source :: "event \<Rightarrow> archive_ptr list" where
  "token_source (Begin_callback p) = [p]"
| "token_source e = []"

definition tokens_acquired :: "event list \<Rightarrow> archive_ptr list" where
  "tokens_acquired evs = concat (map token_source evs)"

text \<open>The archives whose \<open>flush\<close> a stretch of the trace called.\<close>

fun flush_target :: "event \<Rightarrow> archive_ptr list" where
  "flush_target (Flush p) = [p]"
| "flush_target e = []"

definition archives_flushed :: "event list \<Rightarrow> archive_ptr list" where
  "archives_flushed evs = concat (map flush_target evs)"

text \<open>
  A history is a list of calls on the frame source and on its published-size option.
  \<open>run\<close> performs them in order from a given world; a call that fails leaves the world
  its definition gives, and the history goes on.
\<close>

datatype call =
    Call_init metadata_parser_map
  | Call_begin_callback
  | Call_reset
  | Call_alloc_frame rs2_extension_type nat frame_additional_data bool
  | Call_set_sensor sensor_interface
  | Call_set_callback "rs2_frame_callback option"
  | Call_invoke_callback frame_holder
  | Call_flush
  | Call_set_queue_size real

fun perform :: "call \<Rightarrow> world \<Rightarrow> world" where
  "perform (Call_init parsers) w = snd (init parsers w)"
| "perform Call_begin_callback w = snd (begin_callback w)"
| "perform Call_reset w = snd (reset w)"
| "perform (Call_alloc_frame type n additional requires_memory) w =
     snd (alloc_frame type n additional requires_memory w)"
| "perform (Call_set_sensor s) w = snd (set_sensor s w)"
| "perform (Call_set_callback cb) w = snd (set_callback cb w)"
| "perform (Call_invoke_callback frame) w = snd (invoke_callback frame w)"
| "perform Call_flush w = snd (flush w)"
| "perform (Call_set_queue_size v) w = snd (frame_queue_size_set get_published_size_option v w)"

definition run :: "call list \<Rightarrow> world \<Rightarrow> world" where
  "run calls w = fold perform calls w"

text \<open>The frame types that have an entry in the map of the frame source.\<close>

definition archive_keys :: "world \<Rightarrow> rs2_extension_type list" where
  "archive_keys w = map fst (archive (source w))"

section \<open>Properties\<close>

subsection \<open>What invoke_callback does, in one equation\<close>

lemmas collaborator_defs = archive_begin_callback_def callback_invocation_holder_dtor_def
  log_callback_start_def frame_holder_dtor_def emit_def

lemma invoke_callback_None: "invoke_callback None w = (Inr None, w)"
  by (simp add: invoke_callback_def)

lemma invoke_callback_Some:
  "invoke_callback (Some f) w =
     (let f1 = f\<lparr>callback_start := Some (get_time (ts (source w)))\<rparr>;
          pre = [Begin_callback (owner f), Log_callback_start f (get_time (ts (source w)))]
      in case callback (source w) of
           None \<Rightarrow>
             (Inr (Some f1), w\<lparr>trace := trace w @ pre @ [End_callback (owner f), Release f1]\<rparr>)
         | Some cb \<Rightarrow>
             (Inr None,
              w\<lparr>trace := trace w @ pre @ [On_frame f1]
                   @ (case cb f1 of
                        None \<Rightarrow> []
                      | Some e \<Rightarrow> [Log_error ''Exception was thrown during user callback!''])
                   @ [End_callback (owner f)]\<rparr>))"
  by (simp add: invoke_callback_def collaborator_defs Let_def split: option.splits)

lemma source_invoke_callback: "source (snd (invoke_callback fr w)) = source w"
  by (cases fr) (simp_all add: invoke_callback_Some invoke_callback_None Let_def split: option.splits)

lemma invoke_callback_returns: "\<exists>h. fst (invoke_callback fr w) = Inr h"
  by (cases fr) (simp_all add: invoke_callback_Some invoke_callback_None Let_def split: option.splits)

text \<open>
  \<open>alloc_frame\<close> and \<open>invoke_callback\<close> read nothing of the world but the frame source:
  in two worlds with the same frame source they give the same result.
\<close>

lemma fst_alloc_frame_cong:
  "source w' = source w \<Longrightarrow> fst (alloc_frame type n a m w') = fst (alloc_frame type n a m w)"
  by (simp add: alloc_frame_def alloc_and_track_def split: option.splits)

lemma fst_invoke_callback_cong:
  "source w' = source w \<Longrightarrow> fst (invoke_callback fr w') = fst (invoke_callback fr w)"
  by (cases fr) (simp_all add: invoke_callback_Some invoke_callback_None Let_def split: option.splits)

text \<open>The definitions a concrete history is evaluated with.\<close>

lemmas eval_defs = run_def init_def init_step_def make_archive_def archive_assign_def
  new_world_def frame_source_ctor_def set_callback_def reset_def alloc_frame_def
  alloc_and_track_def emit_def emitted_def flush_def begin_callback_def
  archive_begin_callback_def tokens_acquired_def archives_flushed_def archive_keys_def

subsection \<open>Ownership transfer in invoke_callback\<close>

text \<open>
  C1, as the claim states it, fails on the code: the swap that empties the handle is
  inside \<open>if (_callback)\<close>. After \<open>init\<close> and before any \<open>set_callback\<close> there is no
  callback target; \<open>alloc_frame\<close> returns a frame of the video archive, and after
  \<open>invoke_callback\<close> on it the handle still refers to that frame (now with its
  timestamp), so it is not empty.
\<close>

theorem invoke_callback_without_target_keeps_frame:
  "fst (alloc_frame RS2_EXTENSION_TYPE_VIDEO_FRAME 1024 0 True
          (run [Call_init 0] (new_world \<lparr>get_time = 5\<rparr>))) =
     Inr (Some \<lparr>owner = 0, data_size = 1024, additional_data = 0, callback_start = None\<rparr>)
   \<and> fst (invoke_callback
            (Some \<lparr>owner = 0, data_size = 1024, additional_data = 0, callback_start = None\<rparr>)
            (run [Call_init 0, Call_alloc_frame RS2_EXTENSION_TYPE_VIDEO_FRAME 1024 0 True]
               (new_world \<lparr>get_time = 5\<rparr>))) =
     Inr (Some \<lparr>owner = 0, data_size = 1024, additional_data = 0, callback_start = Some 5\<rparr>)
   \<and> fst (invoke_callback
            (Some \<lparr>owner = 0, data_size = 1024, additional_data = 0, callback_start = None\<rparr>)
            (run [Call_init 0, Call_alloc_frame RS2_EXTENSION_TYPE_VIDEO_FRAME 1024 0 True]
               (new_world \<lparr>get_time = 5\<rparr>))) \<noteq> Inr None"
  by (simp add: invoke_callback_Some Let_def eval_defs)

text \<open>
  C1, amended. When a callback target is set, \<open>invoke_callback\<close> on a non-empty handle
  leaves the handle empty, whether the target returns or throws: the frame (with its
  timestamp) is passed to the target once, between taking the token and giving it
  back, the frame source releases nothing itself, and \<open>invoke_callback\<close> with the
  emptied handle changes nothing.
\<close>

theorem invoke_callback_hands_frame_to_target:
  assumes "callback (source w) = Some cb"
  shows "fst (invoke_callback (Some f) w) = Inr None
       \<and> emitted w (snd (invoke_callback (Some f) w)) =
           [Begin_callback (owner f),
            Log_callback_start f (get_time (ts (source w))),
            On_frame (f\<lparr>callback_start := Some (get_time (ts (source w)))\<rparr>)]
           @ (case cb (f\<lparr>callback_start := Some (get_time (ts (source w)))\<rparr>) of
                None \<Rightarrow> []
              | Some e \<Rightarrow> [Log_error ''Exception was thrown during user callback!''])
           @ [End_callback (owner f)]
       \<and> invoke_callback None (snd (invoke_callback (Some f) w)) =
           (Inr None, snd (invoke_callback (Some f) w))"
  using assms by (simp add: invoke_callback_Some invoke_callback_None Let_def emitted_def)

theorem invoke_callback_hands_frame_to_target_witness:
  "(let w = run [Call_init 0, Call_set_callback (Some (\<lambda>f. None))] (new_world \<lparr>get_time = 5\<rparr>);
        f = \<lparr>owner = 0, data_size = 1024, additional_data = 0, callback_start = None\<rparr>
    in callback (source w) = Some (\<lambda>f. None)
     \<and> fst (invoke_callback (Some f) w) = Inr None
     \<and> emitted w (snd (invoke_callback (Some f) w)) =
         [Begin_callback 0, Log_callback_start f 5, On_frame (f\<lparr>callback_start := Some 5\<rparr>),
          End_callback 0]
     \<and> invoke_callback None (snd (invoke_callback (Some f) w)) =
         (Inr None, snd (invoke_callback (Some f) w)))"
proof -
  have target:
    "callback (source (run [Call_init 0, Call_set_callback (Some (\<lambda>f. None))]
                         (new_world \<lparr>get_time = 5\<rparr>))) = Some (\<lambda>f. None)"
    by (simp add: eval_defs)
  show ?thesis
    using target
      invoke_callback_hands_frame_to_target [OF target,
        where f = "\<lparr>owner = 0, data_size = 1024, additional_data = 0, callback_start = None\<rparr>"]
    by (simp add: Let_def eval_defs)
qed

text \<open>
  C9. Without a callback target, \<open>invoke_callback\<close> on a non-empty handle transfers
  nothing: the token is taken from the frame's archive and given back, the timestamp is
  recorded on the frame, no target is invoked, and the handle still refers to the
  frame when the body ends, so the handle's destructor releases it.
\<close>

theorem invoke_callback_null_target_keeps_ownership:
  assumes "callback (source w) = None"
  shows "invoke_callback (Some f) w =
           (Inr (Some (f\<lparr>callback_start := Some (get_time (ts (source w)))\<rparr>)),
            w\<lparr>trace := trace w @
                 [Begin_callback (owner f),
                  Log_callback_start f (get_time (ts (source w))),
                  End_callback (owner f),
                  Release (f\<lparr>callback_start := Some (get_time (ts (source w)))\<rparr>)]\<rparr>)"
  using assms by (simp add: invoke_callback_Some Let_def)

theorem invoke_callback_null_target_keeps_ownership_witness:
  "(let w = run [Call_init 0, Call_set_callback None] (new_world \<lparr>get_time = 5\<rparr>);
        f = \<lparr>owner = 1, data_size = 64, additional_data = 0, callback_start = None\<rparr>
    in callback (source w) = None
     \<and> fst (invoke_callback (Some f) w) = Inr (Some (f\<lparr>callback_start := Some 5\<rparr>))
     \<and> trace (snd (invoke_callback (Some f) w)) =
         [Begin_callback 1, Log_callback_start f 5, End_callback 1,
          Release (f\<lparr>callback_start := Some 5\<rparr>)])"
proof -
  have no_target:
    "callback (source (run [Call_init 0, Call_set_callback None] (new_world \<lparr>get_time = 5\<rparr>))) = None"
    by (simp add: eval_defs)
  show ?thesis
    using no_target
      invoke_callback_null_target_keeps_ownership [OF no_target,
        where f = "\<lparr>owner = 1, data_size = 64, additional_data = 0, callback_start = None\<rparr>"]
    by (simp add: Let_def eval_defs)
qed

subsection \<open>Faults of the user callback\<close>

text \<open>
  C2. When the callback target throws, \<open>invoke_callback\<close> returns normally: the fault is
  logged, the token is given back, and nothing reaches the caller. The frame source is
  as it was, so an \<open>alloc_frame\<close> or \<open>invoke_callback\<close> after it gives the result it would
  have given before, and \<open>invoke_callback\<close> again returns normally.
\<close>

theorem invoke_callback_suppresses_callback_fault:
  assumes "callback (source w) = Some cb"
      and "cb (f\<lparr>callback_start := Some (get_time (ts (source w)))\<rparr>) = Some e"
  shows "invoke_callback (Some f) w =
           (Inr None,
            w\<lparr>trace := trace w @
                 [Begin_callback (owner f),
                  Log_callback_start f (get_time (ts (source w))),
                  On_frame (f\<lparr>callback_start := Some (get_time (ts (source w)))\<rparr>),
                  Log_error ''Exception was thrown during user callback!'',
                  End_callback (owner f)]\<rparr>)
       \<and> fst (alloc_frame type n a m (snd (invoke_callback (Some f) w))) =
           fst (alloc_frame type n a m w)
       \<and> fst (invoke_callback fr (snd (invoke_callback (Some f) w))) = fst (invoke_callback fr w)
       \<and> (\<exists>h. fst (invoke_callback fr (snd (invoke_callback (Some f) w))) = Inr h)"
proof -
  have "invoke_callback (Some f) w =
           (Inr None,
            w\<lparr>trace := trace w @
                 [Begin_callback (owner f),
                  Log_callback_start f (get_time (ts (source w))),
                  On_frame (f\<lparr>callback_start := Some (get_time (ts (source w)))\<rparr>),
                  Log_error ''Exception was thrown during user callback!'',
                  End_callback (owner f)]\<rparr>)"
    using assms by (simp add: invoke_callback_Some Let_def)
  moreover have "fst (alloc_frame type n a m (snd (invoke_callback (Some f) w))) =
      fst (alloc_frame type n a m w)"
    by (rule fst_alloc_frame_cong) (rule source_invoke_callback)
  moreover have "fst (invoke_callback fr (snd (invoke_callback (Some f) w))) =
      fst (invoke_callback fr w)"
    by (rule fst_invoke_callback_cong) (rule source_invoke_callback)
  moreover have "\<exists>h. fst (invoke_callback fr (snd (invoke_callback (Some f) w))) = Inr h"
    by (rule invoke_callback_returns)
  ultimately show ?thesis by blast
qed

theorem invoke_callback_suppresses_callback_fault_witness:
  "(let w = run [Call_init 0, Call_set_callback (Some (\<lambda>f. Some (user_exception 7)))]
              (new_world \<lparr>get_time = 5\<rparr>);
        f = \<lparr>owner = 0, data_size = 1024, additional_data = 0, callback_start = None\<rparr>
    in callback (source w) = Some (\<lambda>f. Some (user_exception 7))
     \<and> fst (invoke_callback (Some f) w) = Inr None
     \<and> trace (snd (invoke_callback (Some f) w)) =
         [Begin_callback 0, Log_callback_start f 5, On_frame (f\<lparr>callback_start := Some 5\<rparr>),
          Log_error ''Exception was thrown during user callback!'', End_callback 0]
     \<and> fst (alloc_frame RS2_EXTENSION_TYPE_COMPOSITE_FRAME 64 0 True
              (snd (invoke_callback (Some f) w))) =
         Inr (Some \<lparr>owner = 1, data_size = 64, additional_data = 0, callback_start = None\<rparr>)
     \<and> fst (invoke_callback (Some f) (snd (invoke_callback (Some f) w))) = Inr None)"
proof -
  have target:
    "callback (source (run [Call_init 0, Call_set_callback (Some (\<lambda>f. Some (user_exception 7)))]
                         (new_world \<lparr>get_time = 5\<rparr>))) = Some (\<lambda>f. Some (user_exception 7))"
    by (simp add: eval_defs)
  have throws:
    "(\<lambda>f. Some (user_exception 7))
       (\<lparr>owner = 0, data_size = 1024, additional_data = 0, callback_start = None\<rparr>
          \<lparr>callback_start := Some (get_time (ts (source
             (run [Call_init 0, Call_set_callback (Some (\<lambda>f. Some (user_exception 7)))]
                (new_world \<lparr>get_time = 5\<rparr>)))))\<rparr>) = Some (user_exception 7)"
    by simp
  show ?thesis
    using target
      invoke_callback_suppresses_callback_fault [OF target throws,
        where type = RS2_EXTENSION_TYPE_COMPOSITE_FRAME and n = 64 and a = 0 and m = True
          and fr = "Some \<lparr>owner = 0, data_size = 1024, additional_data = 0, callback_start = None\<rparr>"]
    by (simp add: Let_def invoke_callback_Some eval_defs)
qed

subsection \<open>invoke_callback with an empty handle\<close>

text \<open>
  C7. \<open>invoke_callback\<close> with an empty frame handle does nothing: the world after the
  call is the world before it, so no token was taken, no timestamp recorded, no
  callback target invoked and no member of the frame source changed.
\<close>

theorem invoke_callback_empty_handle:
  "invoke_callback None w = (Inr None, w) \<and> emitted w (snd (invoke_callback None w)) = []"
  by (simp add: invoke_callback_def emitted_def)

subsection \<open>Where the callback token comes from\<close>

text \<open>
  C8. \<open>invoke_callback\<close> on a non-empty handle takes exactly one callback token, before
  anything else, and takes it from the archive that owns the frame.
\<close>

theorem invoke_callback_token_from_owner:
  "tokens_acquired (emitted w (snd (invoke_callback (Some f) w))) = [owner f]
   \<and> hd (emitted w (snd (invoke_callback (Some f) w))) = Begin_callback (owner f)"
  by (simp add: invoke_callback_Some Let_def emitted_def tokens_acquired_def split: option.splits)

text \<open>
  After \<open>init\<close> the video archive is at address 0 and the composite archive at address
  1. For a frame of the composite archive the token comes from archive 1, while
  \<open>frame_source::begin_callback\<close> takes one from archive 0.
\<close>

theorem invoke_callback_token_from_owner_witness:
  "(let w = run [Call_init 0] (new_world \<lparr>get_time = 5\<rparr>);
        f = \<lparr>owner = 1, data_size = 64, additional_data = 0, callback_start = None\<rparr>
    in archive (source w) = [(RS2_EXTENSION_TYPE_VIDEO_FRAME, Some 0),
                             (RS2_EXTENSION_TYPE_COMPOSITE_FRAME, Some 1)]
     \<and> tokens_acquired (emitted w (snd (invoke_callback (Some f) w))) = [1]
     \<and> tokens_acquired (emitted w (snd (begin_callback w))) = [0])"
  using invoke_callback_token_from_owner
      [of "run [Call_init 0] (new_world \<lparr>get_time = 5\<rparr>)"
          "\<lparr>owner = 1, data_size = 64, additional_data = 0, callback_start = None\<rparr>"]
  by (simp add: Let_def eval_defs)

subsection \<open>The frame types alloc_frame serves\<close>

lemma source_emit: "source (emit e w) = source w"
  by (simp add: emit_def)

lemma source_set_sensor_loop: "source (snd (set_sensor_loop al s w)) = source w"
  by (induction al arbitrary: w) (simp_all add: source_emit split: option.splits)

lemma source_flush_loop: "source (flush_loop al w) = source w"
  by (induction al arbitrary: w) (simp_all add: source_emit split: option.splits)

text \<open>
  No call adds an entry for a frame type other than the two \<open>init\<close> names: \<open>init\<close> and
  \<open>begin_callback\<close> are the only functions that add entries at all.
\<close>

lemma archive_keys_init:
  "set (archive_keys (snd (init parsers w))) =
     {RS2_EXTENSION_TYPE_VIDEO_FRAME, RS2_EXTENSION_TYPE_COMPOSITE_FRAME} \<union> set (archive_keys w)"
  by (auto simp add: init_def init_step_def make_archive_def archive_assign_def archive_keys_def
      dom_update)

lemma archive_keys_perform:
  "set (archive_keys (perform c w)) \<subseteq>
     {RS2_EXTENSION_TYPE_VIDEO_FRAME, RS2_EXTENSION_TYPE_COMPOSITE_FRAME} \<union> set (archive_keys w)"
proof (cases c)
  case (Call_init parsers)
  then show ?thesis by (auto simp add: archive_keys_init)
next
  case Call_begin_callback
  then show ?thesis
    by (auto simp add: begin_callback_def archive_begin_callback_def archive_assign_def
        archive_keys_def dom_update source_emit split: option.splits)
next
  case Call_reset
  then show ?thesis by (auto simp add: reset_def archive_keys_def)
next
  case (Call_alloc_frame type n a m)
  then show ?thesis
    by (auto simp add: alloc_frame_def alloc_and_track_def archive_keys_def source_emit
        split: option.splits)
next
  case (Call_set_sensor s)
  then show ?thesis by (auto simp add: set_sensor_def archive_keys_def source_set_sensor_loop)
next
  case (Call_set_callback cb)
  then show ?thesis by (auto simp add: set_callback_def archive_keys_def)
next
  case (Call_invoke_callback fr)
  then show ?thesis by (auto simp add: archive_keys_def source_invoke_callback)
next
  case Call_flush
  then show ?thesis by (auto simp add: flush_def archive_keys_def source_flush_loop)
next
  case (Call_set_queue_size v)
  then show ?thesis
    by (auto simp add: frame_queue_size_set_def archive_keys_def split: sum.splits)
qed

lemma archive_keys_run:
  "set (archive_keys (run calls w)) \<subseteq>
     {RS2_EXTENSION_TYPE_VIDEO_FRAME, RS2_EXTENSION_TYPE_COMPOSITE_FRAME} \<union> set (archive_keys w)"
  unfolding run_def
proof (induction calls arbitrary: w)
  case Nil
  then show ?case by auto
next
  case (Cons c calls)
  have "set (archive_keys (fold perform calls (perform c w))) \<subseteq>
      {RS2_EXTENSION_TYPE_VIDEO_FRAME, RS2_EXTENSION_TYPE_COMPOSITE_FRAME}
        \<union> set (archive_keys (perform c w))"
    by (rule Cons.IH)
  with archive_keys_perform [of c w] show ?case by auto
qed

lemma archive_keys_new_world: "archive_keys (new_world t) = []"
  by (simp add: archive_keys_def new_world_def frame_source_ctor_def)

lemma alloc_frame_no_entry:
  "type \<notin> set (archive_keys w) \<Longrightarrow>
   alloc_frame type n a m w =
     (Inl (Thrown (wrong_api_call_sequence_exception ''Requested frame type is not supported!'')), w)"
  by (simp add: alloc_frame_def archive_keys_def map_of_eq_None_iff [THEN iffD2])

text \<open>
  C3. Take any history of calls on a new frame source that contains an \<open>init\<close>. In the
  world it leads to, \<open>alloc_frame\<close> for a frame type other than video and composite throws
  \<open>wrong_api_call_sequence_exception\<close> with the message "Requested frame type is not
  supported!" (the unsupported-kind error), and the world is unchanged: no archive was
  asked for a frame.
\<close>

theorem alloc_frame_unsupported_type:
  assumes "type \<noteq> RS2_EXTENSION_TYPE_VIDEO_FRAME"
      and "type \<noteq> RS2_EXTENSION_TYPE_COMPOSITE_FRAME"
  shows "alloc_frame type n a m (run (history @ [Call_init parsers] @ later) (new_world t)) =
           (Inl (Thrown (wrong_api_call_sequence_exception
                           ''Requested frame type is not supported!'')),
            run (history @ [Call_init parsers] @ later) (new_world t))"
proof -
  have "type \<notin> set (archive_keys (run (history @ [Call_init parsers] @ later) (new_world t)))"
    using archive_keys_run [of "history @ [Call_init parsers] @ later" "new_world t"] assms
    by (auto simp add: archive_keys_new_world)
  then show ?thesis by (rule alloc_frame_no_entry)
qed

theorem alloc_frame_unsupported_type_witness:
  "RS2_EXTENSION_TYPE_OTHER 3 \<noteq> RS2_EXTENSION_TYPE_VIDEO_FRAME
   \<and> RS2_EXTENSION_TYPE_OTHER 3 \<noteq> RS2_EXTENSION_TYPE_COMPOSITE_FRAME
   \<and> alloc_frame (RS2_EXTENSION_TYPE_OTHER 3) 1024 0 True
        (run [Call_init 0] (new_world \<lparr>get_time = 5\<rparr>)) =
       (Inl (Thrown (wrong_api_call_sequence_exception
                       ''Requested frame type is not supported!'')),
        \<lparr>source = \<lparr>callback = None,
                   archive = [(RS2_EXTENSION_TYPE_VIDEO_FRAME, Some 0),
                              (RS2_EXTENSION_TYPE_COMPOSITE_FRAME, Some 1)],
                   max_publish_list_size = 16, ts = \<lparr>get_time = 5\<rparr>\<rparr>,
         next_archive = 2, trace = []\<rparr>)"
  using alloc_frame_unsupported_type
      [of "RS2_EXTENSION_TYPE_OTHER 3" 1024 0 True "[]" 0 "[]" "\<lparr>get_time = 5\<rparr>"]
  by (simp add: eval_defs)

subsection \<open>alloc_frame out of sequence\<close>

text \<open>
  Before \<open>init\<close> the map is empty and \<open>alloc_frame\<close> throws
  \<open>wrong_api_call_sequence_exception\<close> for every frame type. \<open>reset\<close> keeps the entries and
  nulls their pointers, so after \<open>reset\<close> a frame type that had an entry is found and its
  null pointer is dereferenced.
\<close>

lemma alloc_frame_before_init:
  "alloc_frame type n a m (new_world t) =
     (Inl (Thrown (wrong_api_call_sequence_exception ''Requested frame type is not supported!'')),
      new_world t)"
  by (rule alloc_frame_no_entry) (simp add: archive_keys_new_world)

lemma map_of_reset:
  "map_of (map (\<lambda>kvp. (fst kvp, None)) al) k = (if k \<in> fst ` set al then Some None else None)"
  by (induction al) auto

lemma alloc_frame_after_reset:
  "alloc_frame type n a m (snd (reset w)) =
     (if type \<in> set (archive_keys w)
      then (Inl null_dereference, snd (reset w))
      else (Inl (Thrown (wrong_api_call_sequence_exception
                           ''Requested frame type is not supported!'')),
            snd (reset w)))"
  by (simp add: alloc_frame_def reset_def archive_keys_def map_of_reset)

text \<open>
  C4. The claim: \<open>alloc_frame\<close> after \<open>reset\<close> fails with a sequencing error reported to
  the caller. The code: after \<open>init\<close> and \<open>reset\<close>, \<open>alloc_frame\<close> for the video frame type
  throws nothing; it dereferences the null pointer \<open>reset\<close> left in the map.
\<close>

theorem alloc_frame_after_reset_null_dereference:
  "fst (alloc_frame RS2_EXTENSION_TYPE_VIDEO_FRAME 1024 0 True
          (run [Call_init 0, Call_reset] (new_world \<lparr>get_time = 5\<rparr>))) = Inl null_dereference"
  by (simp add: eval_defs)

subsection \<open>The published-size option\<close>

text \<open>
  C5. For the option \<open>get_published_size_option\<close> returns (range 0 to 32, step 1), \<open>set\<close>
  with a value below 0, above 32 or not whole throws \<open>invalid_value_exception\<close> and
  leaves the world as it was; \<open>query\<close> after the failed \<open>set\<close> gives what it gave before.
\<close>

theorem frame_queue_size_set_rejects_invalid_value:
  assumes "v < 0 \<or> 32 < v \<or> v \<notin> \<int>"
  shows "frame_queue_size_set get_published_size_option v w =
           (Inl (Thrown (invalid_value_exception v)), w)
       \<and> frame_queue_size_query get_published_size_option
            (snd (frame_queue_size_set get_published_size_option v w)) =
          frame_queue_size_query get_published_size_option w"
proof -
  have "\<not> is_valid (opt_range get_published_size_option) v"
    using assms by (auto simp add: is_valid_def get_published_size_option_def frac_eq_0_iff)
  then show ?thesis by (simp add: frame_queue_size_set_def)
qed

theorem frame_queue_size_set_rejects_invalid_value_witness:
  "(32 :: real) < 33
   \<and> frame_queue_size_set get_published_size_option 33 (new_world \<lparr>get_time = 5\<rparr>) =
       (Inl (Thrown (invalid_value_exception 33)), new_world \<lparr>get_time = 5\<rparr>)
   \<and> frame_queue_size_query get_published_size_option
        (snd (frame_queue_size_set get_published_size_option 33 (new_world \<lparr>get_time = 5\<rparr>))) = 16"
proof -
  have above: "(33 :: real) < 0 \<or> 32 < (33 :: real) \<or> (33 :: real) \<notin> \<int>"
    by simp
  show ?thesis
    using frame_queue_size_set_rejects_invalid_value [OF above, of "new_world \<lparr>get_time = 5\<rparr>"]
    by (simp add: frame_queue_size_query_def new_world_def frame_source_ctor_def)
qed

text \<open>
  C6. For the same option, \<open>set\<close> with a whole value from 0 to 32 succeeds, and \<open>query\<close>
  after it returns that value.
\<close>

theorem frame_queue_size_set_then_query:
  assumes "0 \<le> v" and "v \<le> 32" and "v \<in> \<int>"
  shows "fst (frame_queue_size_set get_published_size_option v w) = Inr ()
       \<and> frame_queue_size_query get_published_size_option
            (snd (frame_queue_size_set get_published_size_option v w)) = v"
proof -
  from assms(3) obtain k :: int where k: "v = of_int k"
    by (auto elim: Ints_cases)
  with assms have k_range: "0 \<le> k" "k \<le> 32"
    by simp_all
  have valid: "is_valid (opt_range get_published_size_option) v"
    using assms by (simp add: is_valid_def get_published_size_option_def frac_eq_0_iff)
  have cast: "static_cast_uint32 v = Inr (word_of_int k)"
    using k k_range by (simp add: static_cast_uint32_def)
  have "unat (word_of_int k :: 32 word) = nat k"
    using k_range by (simp add: unat_eq_nat_uint uint_word_of_int take_bit_int_eq_self)
  then have "real (unat (word_of_int k :: 32 word)) = v"
    using k k_range by simp
  with valid cast show ?thesis
    by (simp add: frame_queue_size_set_def frame_queue_size_query_def)
qed

theorem frame_queue_size_set_then_query_witness:
  "(0 :: real) \<le> 32 \<and> (32 :: real) \<le> 32 \<and> (32 :: real) \<in> \<int>
   \<and> fst (frame_queue_size_set get_published_size_option 32 (new_world \<lparr>get_time = 5\<rparr>)) = Inr ()
   \<and> frame_queue_size_query get_published_size_option
        (snd (frame_queue_size_set get_published_size_option 32 (new_world \<lparr>get_time = 5\<rparr>))) = 32
   \<and> frame_queue_size_query get_published_size_option (new_world \<lparr>get_time = 5\<rparr>) = 16"
proof -
  have whole: "(32 :: real) \<in> \<int>"
    by simp
  show ?thesis
    using whole
      frame_queue_size_set_then_query [of 32 "new_world \<lparr>get_time = 5\<rparr>", OF _ _ whole]
    by (simp add: frame_queue_size_query_def new_world_def frame_source_ctor_def)
qed

subsection \<open>flush without archives\<close>

lemma flush_loop_null: "flush_loop (map (\<lambda>kvp. (fst kvp, None)) al) w = w"
  by (induction al) simp_all

text \<open>
  C10. \<open>reset\<close> keeps the frame types of the map and makes every pointer null. \<open>flush\<close>
  after \<open>reset\<close> returns normally and leaves the world as it is, so no archive's \<open>flush\<close>
  was called; the same holds for \<open>flush\<close> on a new frame source, before \<open>init\<close>.
\<close>

theorem flush_after_reset_is_noop:
  "flush (snd (reset w)) = (Inr (), snd (reset w))
   \<and> archives_flushed (emitted (snd (reset w)) (snd (flush (snd (reset w))))) = []
   \<and> archive_keys (snd (reset w)) = archive_keys w
   \<and> map snd (archive (source (snd (reset w)))) = replicate (length (archive (source w))) None
   \<and> flush (new_world t) = (Inr (), new_world t)"
proof -
  have noop: "flush (snd (reset w)) = (Inr (), snd (reset w))"
    by (simp add: flush_def reset_def flush_loop_null)
  have "archives_flushed (emitted (snd (reset w)) (snd (flush (snd (reset w))))) = []"
    by (simp add: noop emitted_def archives_flushed_def)
  moreover have "archive_keys (snd (reset w)) = archive_keys w"
    by (simp add: reset_def archive_keys_def comp_def)
  moreover have "map snd (archive (source (snd (reset w)))) =
      replicate (length (archive (source w))) None"
    by (simp add: reset_def comp_def map_replicate_const)
  moreover have "flush (new_world t) = (Inr (), new_world t)"
    by (simp add: flush_def new_world_def frame_source_ctor_def)
  ultimately show ?thesis using noop by simp
qed

text \<open>
  After \<open>init\<close>, \<open>flush\<close> calls the \<open>flush\<close> of both archives; after \<open>init\<close> and \<open>reset\<close> it
  calls none, and both frame types are still in the map.
\<close>

theorem flush_after_reset_is_noop_witness:
  "(let w = run [Call_init 0] (new_world \<lparr>get_time = 5\<rparr>)
    in archives_flushed (emitted w (snd (flush w))) = [0, 1]
     \<and> fst (flush (snd (reset w))) = Inr ()
     \<and> archives_flushed (emitted (snd (reset w)) (snd (flush (snd (reset w))))) = []
     \<and> archive (source (snd (reset w))) =
         [(RS2_EXTENSION_TYPE_VIDEO_FRAME, None), (RS2_EXTENSION_TYPE_COMPOSITE_FRAME, None)])"
  using flush_after_reset_is_noop
      [of "run [Call_init 0] (new_world \<lparr>get_time = 5\<rparr>)" "\<lparr>get_time = 5\<rparr>"]
  by (simp add: Let_def eval_defs)

end
